theory Spec2Isabelle
  imports Complex_Main
begin

section \<open>Python strings\<close>

text \<open>
  A Python \<open>str\<close> is modelled as a \<open>string\<close> whose characters are the code points
  below 256. On that range \<open>str.lower\<close> maps A-Z and the Latin-1 capitals
  (0xC0-0xDE without 0xD7) to the letter 32 code points higher, which is the same
  code with bit 5 set.
\<close>

definition is_upper :: "char \<Rightarrow> bool" where
  "is_upper c = (let n = (of_char c :: nat) in
     (65 \<le> n \<and> n \<le> 90) \<or> (192 \<le> n \<and> n \<le> 222 \<and> n \<noteq> 215))"

definition lower_char :: "char \<Rightarrow> char" where
  "lower_char c = (if is_upper c
     then (case c of Char b0 b1 b2 b3 b4 b5 b6 b7 \<Rightarrow> Char b0 b1 b2 b3 b4 True b6 b7)
     else c)"

definition lower :: "string \<Rightarrow> string" where
  "lower s = map lower_char s"

text \<open>\<open>str.isspace\<close> on one character: 0x09-0x0D, 0x1C-0x20, 0x85, 0xA0.\<close>

definition is_space :: "char \<Rightarrow> bool" where
  "is_space c = (let n = (of_char c :: nat) in
     (9 \<le> n \<and> n \<le> 13) \<or> (28 \<le> n \<and> n \<le> 32) \<or> n = 133 \<or> n = 160)"

definition strip :: "string \<Rightarrow> string" where
  "strip s = rev (dropWhile is_space (rev (dropWhile is_space s)))"

text \<open>\<open>s.startswith(p)\<close> and the substring test \<open>needle in hay\<close>.\<close>

fun startswith :: "string \<Rightarrow> string \<Rightarrow> bool" where
  "startswith s [] = True"
| "startswith [] (p # ps) = False"
| "startswith (c # s) (p # ps) = (c = p \<and> startswith s ps)"

fun contains :: "string \<Rightarrow> string \<Rightarrow> bool" where
  "contains [] needle = (needle = [])"
| "contains (c # hay) needle = (startswith (c # hay) needle \<or> contains hay needle)"

section \<open>The converter's constants\<close>

definition SALAAZ_REQUIRED_COLUMNS :: "string list" where
  "SALAAZ_REQUIRED_COLUMNS = [''name'', ''description'', ''price'', ''brand'', ''category_id'']"

definition SALAAZ_OPTIONAL_COLUMNS :: "string list" where
  "SALAAZ_OPTIONAL_COLUMNS =
     [''sub_category_id'', ''sub_sub_category_id'', ''certification'',
      ''country_of_origin'', ''details'', ''care'', ''size_fit'',
      ''variant_attributes'', ''variant_quantity'', ''image_urls'']"

definition ALL_SALAAZ_COLUMNS :: "string list" where
  "ALL_SALAAZ_COLUMNS = SALAAZ_REQUIRED_COLUMNS @ SALAAZ_OPTIONAL_COLUMNS"

text \<open>A Python dict keeps insertion order: an association list, keys in source order.\<close>

type_synonym profile = "(string \<times> string list) list"

definition shopify_profile :: profile where
  "shopify_profile =
   [(''name'', [''Title'', ''Product Title'', ''title'']),
    (''description'', [''Body (HTML)'', ''Description'', ''body_html'']),
    (''price'', [''Variant Price'', ''Price'', ''price'']),
    (''brand'', [''Vendor'', ''Brand'', ''vendor'']),
    (''variant_attributes'', [''Option1 Name'', ''Option1 Value'', ''Option2 Name'', ''Option2 Value'']),
    (''variant_quantity'', [''Variant Inventory Qty'', ''Inventory Quantity'', ''inventory_quantity'']),
    (''image_urls'', [''Image Src'', ''Image URL'', ''image_src'']),
    (''category_source'', [''Product Category'', ''Type'', ''Tags'', ''Category''])]"

definition amazon_profile :: profile where
  "amazon_profile =
   [(''name'', [''Product Name'', ''Title'', ''item-name'']),
    (''description'', [''Product Description'', ''Description'', ''product-description'']),
    (''price'', [''Price'', ''Standard Price'', ''standard-price'']),
    (''brand'', [''Brand Name'', ''Brand'', ''brand-name'']),
    (''variant_attributes'', [''Color'', ''Size'', ''Style'']),
    (''variant_quantity'', [''Quantity'', ''Stock Quantity'', ''quantity'']),
    (''image_urls'', [''Main Image URL'', ''Image URL'', ''main-image-url'']),
    (''category_source'', [''Category'', ''Product Type'', ''Department''])]"

definition woocommerce_profile :: profile where
  "woocommerce_profile =
   [(''name'', [''Name'', ''Product Name'', ''post_title'']),
    (''description'', [''Description'', ''Product Description'', ''post_content'']),
    (''price'', [''Regular Price'', ''Price'', ''regular_price'']),
    (''brand'', [''Brand'', ''Manufacturer'', ''brand'']),
    (''variant_attributes'', [''Attribute 1 name'', ''Attribute 1 value(s)'']),
    (''variant_quantity'', [''Stock'', ''Stock Quantity'', ''stock'']),
    (''image_urls'', [''Images'', ''Gallery Images'', ''images'']),
    (''category_source'', [''Categories'', ''Product categories'', ''Category''])]"

definition PLATFORM_MAPPINGS :: "(string \<times> profile) list" where
  "PLATFORM_MAPPINGS =
     [(''shopify'', shopify_profile), (''amazon'', amazon_profile),
      (''woocommerce'', woocommerce_profile)]"

section \<open>detect_platform\<close>

text \<open>
  The inner loop over \<open>possible_columns\<close> adds one to the score at the first synonym whose
  lower-case form is in \<open>column_set\<close> and breaks.
\<close>

fun first_hit :: "string set \<Rightarrow> string list \<Rightarrow> nat" where
  "first_hit column_set [] = 0"
| "first_hit column_set (possible_col # rest) =
     (if lower possible_col \<in> column_set then 1 else first_hit column_set rest)"

text \<open>The loop over \<open>mappings.items()\<close>, carrying \<open>(score, total_possible)\<close>.\<close>

fun score_loop :: "string set \<Rightarrow> profile \<Rightarrow> nat \<times> nat \<Rightarrow> nat \<times> nat" where
  "score_loop column_set [] st = st"
| "score_loop column_set ((salaaz_field, possible_columns) # rest) (score, total_possible) =
     score_loop column_set rest (score + first_hit column_set possible_columns, total_possible + 1)"

text \<open>
  \<open>score / total_possible\<close> is a quotient of two small integers. It is kept as an exact
  rational; the threshold is the double that the literal \<open>0.3\<close> denotes,
  \<open>5404319552844595 / 2^54\<close>.
\<close>

definition platform_ratio :: "string set \<Rightarrow> profile \<Rightarrow> rat" where
  "platform_ratio column_set mappings =
     (case score_loop column_set mappings (0, 0) of
        (score, total_possible) \<Rightarrow>
          if total_possible > 0 then of_nat score / of_nat total_possible else 0)"

definition threshold_03 :: rat where
  "threshold_03 = 5404319552844595 / 18014398509481984"

text \<open>\<open>max(items, key=...)\<close> keeps the first item whose key is maximal.\<close>

fun max_by :: "('a \<Rightarrow> rat) \<Rightarrow> 'a \<Rightarrow> 'a list \<Rightarrow> 'a" where
  "max_by key best [] = best"
| "max_by key best (x # xs) = max_by key (if key x > key best then x else best) xs"

definition detect_platform :: "string list \<Rightarrow> string option" where
  "detect_platform columns =
     (let column_set = set (map lower columns);
          scores = map (\<lambda>(platform, mappings). (platform, platform_ratio column_set mappings))
                       PLATFORM_MAPPINGS
      in case scores of
           [] \<Rightarrow> None
         | s # rest \<Rightarrow>
             (let best_platform = max_by snd s rest
              in if snd best_platform > threshold_03 then Some (fst best_platform) else None))"

text \<open>
  The score as the specification words it: the number of target fields of the profile
  (\<open>category_source\<close> included) with at least one synonym among the source columns,
  compared without regard to case, over the number of target fields of the profile.
\<close>

definition spec_field_hit :: "string list \<Rightarrow> string list \<Rightarrow> bool" where
  "spec_field_hit cols synonyms = list_ex (\<lambda>syn. lower syn \<in> set (map lower cols)) synonyms"

definition spec_score :: "string list \<Rightarrow> profile \<Rightarrow> rat" where
  "spec_score cols prof =
     of_nat (length (filter (\<lambda>(field, synonyms). spec_field_hit cols synonyms) prof))
       / of_nat (length prof)"

section \<open>suggest_mapping\<close>

text \<open>
  \<open>d[k] = v\<close> on an insertion-ordered dict: an existing key keeps its place and takes the
  new value, a new key goes to the end. \<open>dict_get\<close> is \<open>d.get(k)\<close>.
\<close>

fun dict_set :: "('k \<times> 'v) list \<Rightarrow> 'k \<Rightarrow> 'v \<Rightarrow> ('k \<times> 'v) list" where
  "dict_set [] k v = [(k, v)]"
| "dict_set ((k', v') # d) k v = (if k' = k then (k, v) # d else (k', v') # dict_set d k v)"

definition dict_get :: "('k \<times> 'v) list \<Rightarrow> 'k \<Rightarrow> 'v option" where
  "dict_get d k = map_of d k"

definition dict_keys :: "('k \<times> 'v) list \<Rightarrow> 'k list" where
  "dict_keys d = map fst d"

definition fuzzy_keywords :: "(string \<times> string list) list" where
  "fuzzy_keywords =
   [(''name'', [''title'', ''name'', ''product'']),
    (''description'', [''description'', ''body'', ''content'', ''details'']),
    (''price'', [''price'', ''cost'', ''amount'']),
    (''brand'', [''brand'', ''vendor'', ''manufacturer'']),
    (''category_id'', [''category'', ''type'', ''classification'']),
    (''variant_quantity'', [''quantity'', ''stock'', ''inventory'', ''qty'']),
    (''image_urls'', [''image'', ''photo'', ''picture'', ''url'']),
    (''category_source'', [''category'', ''type'', ''tags'', ''classification'', ''department''])]"

text \<open>The keyword stage: keywords in listed order, for each the first column containing it.\<close>

fun keyword_match :: "string list \<Rightarrow> string list \<Rightarrow> string option" where
  "keyword_match [] source_columns = None"
| "keyword_match (keyword # rest) source_columns =
     (case find (\<lambda>col. contains (lower col) keyword) source_columns of
        Some col \<Rightarrow> Some col
      | None \<Rightarrow> keyword_match rest source_columns)"

definition fuzzy_match_column :: "string \<Rightarrow> string list \<Rightarrow> string option" where
  "fuzzy_match_column target source_columns =
     (let target_lower = lower target in
      case find (\<lambda>col. lower col = target_lower) source_columns of
        Some col \<Rightarrow> Some col
      | None \<Rightarrow>
          (case find (\<lambda>col. contains (lower col) target_lower \<or> contains target_lower (lower col))
                     source_columns of
             Some col \<Rightarrow> Some col
           | None \<Rightarrow>
               (case dict_get fuzzy_keywords target of
                  Some keywords \<Rightarrow> keyword_match keywords source_columns
                | None \<Rightarrow> None)))"

text \<open>
  The loop over \<open>possible_columns\<close> in \<open>suggest_mapping\<close>: at the first synonym whose
  lower-case form is in \<open>source_lower\<close>, the column at the first index of that form in
  \<open>source_lower\<close> is stored, and the loop breaks.
\<close>

fun platform_field_loop ::
  "string list \<Rightarrow> string \<Rightarrow> string list \<Rightarrow> (string \<times> string) list \<Rightarrow> (string \<times> string) list"
where
  "platform_field_loop source_columns salaaz_field [] mapping = mapping"
| "platform_field_loop source_columns salaaz_field (possible_col # rest) mapping =
     (case find (\<lambda>col. lower col = lower possible_col) source_columns of
        Some original_col \<Rightarrow> dict_set mapping salaaz_field original_col
      | None \<Rightarrow> platform_field_loop source_columns salaaz_field rest mapping)"

fun platform_loop ::
  "string list \<Rightarrow> profile \<Rightarrow> (string \<times> string) list \<Rightarrow> (string \<times> string) list"
where
  "platform_loop source_columns [] mapping = mapping"
| "platform_loop source_columns ((salaaz_field, possible_columns) # rest) mapping =
     platform_loop source_columns rest
       (platform_field_loop source_columns salaaz_field possible_columns mapping)"

text \<open>The fallback loop; \<open>if best_match:\<close> is false for \<open>None\<close> and for the empty string.\<close>

fun fuzzy_loop ::
  "string list \<Rightarrow> string list \<Rightarrow> (string \<times> string) list \<Rightarrow> (string \<times> string) list"
where
  "fuzzy_loop source_columns [] mapping = mapping"
| "fuzzy_loop source_columns (salaaz_field # rest) mapping =
     fuzzy_loop source_columns rest
       (if salaaz_field \<notin> set (dict_keys mapping)
        then (case fuzzy_match_column salaaz_field source_columns of
                Some best_match \<Rightarrow>
                  if best_match \<noteq> [] then dict_set mapping salaaz_field best_match else mapping
              | None \<Rightarrow> mapping)
        else mapping)"

text \<open>
  \<open>platform\<close> is \<open>Optional[str]\<close>; \<open>if platform and platform in self.PLATFORM_MAPPINGS\<close>
  holds for the three profile names only.
\<close>

definition suggest_mapping :: "string list \<Rightarrow> string option \<Rightarrow> (string \<times> string) list" where
  "suggest_mapping source_columns platform =
     (let mapping =
        (case platform of
           None \<Rightarrow> []
         | Some p \<Rightarrow>
             (case dict_get PLATFORM_MAPPINGS p of
                Some platform_mappings \<Rightarrow>
                  if p \<noteq> [] then platform_loop source_columns platform_mappings [] else []
              | None \<Rightarrow> []))
      in fuzzy_loop source_columns ALL_SALAAZ_COLUMNS mapping)"

(*PROPERTIES*)

section \<open>Platform detection\<close>

lemma first_hit_spec:
  "first_hit (lower ` set cols) syns = (if spec_field_hit cols syns then 1 else 0)"
  by (induction syns) (auto simp: spec_field_hit_def)

lemma score_loop_spec:
  "score_loop (lower ` set cols) prof (s, t) =
     (s + length (filter (\<lambda>(field, synonyms). spec_field_hit cols synonyms) prof), t + length prof)"
  by (induction prof arbitrary: s t) (auto simp: first_hit_spec)

lemma platform_ratio_spec:
  "platform_ratio (lower ` set cols) prof = spec_score cols prof"
  by (simp add: platform_ratio_def spec_score_def score_loop_spec)

lemma eighths_threshold:
  fixes k :: nat
  shows "(of_nat k / 8 > threshold_03) = (of_nat k / (8::rat) > 3 / 10)"
proof -
  have "(of_nat k / 8 > threshold_03) = (3 \<le> k)"
    unfolding threshold_03_def by (simp add: field_simps) linarith
  moreover have "(of_nat k / (8::rat) > 3 / 10) = (3 \<le> k)"
    by (simp add: field_simps) linarith
  ultimately show ?thesis by simp
qed

lemma spec_score_eighths:
  "length prof = 8 \<Longrightarrow> (spec_score cols prof > threshold_03) = (spec_score cols prof > 3 / 10)"
  unfolding spec_score_def using eighths_threshold by simp

lemma profile_lengths:
  "length shopify_profile = 8" "length amazon_profile = 8" "length woocommerce_profile = 8"
  by (simp_all add: shopify_profile_def amazon_profile_def woocommerce_profile_def)

lemma detect3:
  fixes s a w :: rat
  shows "(let best = max_by snd (p1, s) [(p2, a), (p3, w)]
          in if snd best > t then Some (fst best) else None) =
         (if s > t \<or> a > t \<or> w > t
          then Some (if a \<le> s \<and> w \<le> s then p1 else if w \<le> a then p2 else p3)
          else None)"
  by (auto simp: Let_def)

text \<open>
  C3: for every list of source column names, \<open>detect_platform\<close> returns the platform
  with the highest score when some score exceeds 0.3, the first in the order shopify,
  amazon, woocommerce among equal scores, and no platform otherwise.
\<close>

theorem detect_platform_spec:
  "detect_platform cols =
     (let s = spec_score cols shopify_profile;
          a = spec_score cols amazon_profile;
          w = spec_score cols woocommerce_profile
      in if s > 3 / 10 \<or> a > 3 / 10 \<or> w > 3 / 10
         then Some (if a \<le> s \<and> w \<le> s then ''shopify''
                    else if w \<le> a then ''amazon'' else ''woocommerce'')
         else None)"
proof -
  have "detect_platform cols =
      (let best = max_by snd (''shopify'', spec_score cols shopify_profile)
                    [(''amazon'', spec_score cols amazon_profile),
                     (''woocommerce'', spec_score cols woocommerce_profile)]
       in if snd best > threshold_03 then Some (fst best) else None)"
    by (simp add: detect_platform_def PLATFORM_MAPPINGS_def platform_ratio_spec Let_def
          del: max_by.simps)
  also have "\<dots> =
      (if spec_score cols shopify_profile > threshold_03
          \<or> spec_score cols amazon_profile > threshold_03
          \<or> spec_score cols woocommerce_profile > threshold_03
       then Some (if spec_score cols amazon_profile \<le> spec_score cols shopify_profile
                     \<and> spec_score cols woocommerce_profile \<le> spec_score cols shopify_profile
                  then ''shopify''
                  else if spec_score cols woocommerce_profile \<le> spec_score cols amazon_profile
                  then ''amazon'' else ''woocommerce'')
       else None)"
    by (rule detect3)
  finally show ?thesis
    by (simp only: spec_score_eighths[OF profile_lengths(1)]
          spec_score_eighths[OF profile_lengths(2)]
          spec_score_eighths[OF profile_lengths(3)] Let_def)
qed

theorem detect_platform_spec_witness:
  "detect_platform [''Title'', ''Vendor'', ''PRICE''] = Some ''shopify''"
  using detect_platform_spec[of "[''Title'', ''Vendor'', ''PRICE'']"]
  by (simp add: spec_score_def spec_field_hit_def shopify_profile_def amazon_profile_def
        woocommerce_profile_def lower_def lower_char_def is_upper_def)

end
